theory Spec2Isabelle
  imports Main
begin

section \<open>Error taxonomy (types/errors.ts)\<close>

text \<open>
  The classes of the error hierarchy. \<open>C_Error\<close> is the built-in \<open>Error\<close>; every
  class of the SDK extends \<open>ScalekitAuthError\<close>, which extends \<open>Error\<close>.
  \<open>instanceof\<close> is decided by the class, which the constructors below fix.
\<close>

datatype error_class =
    C_Error
  | C_ReferenceError
  | C_TypeError
  | C_ScalekitAuthError
  | C_LoginError
  | C_TokenRefreshError
  | C_LogoutError
  | C_ConfigurationError
  | C_CallbackError
  | C_NotInitializedError
  | C_NotAuthenticatedError

datatype js_error =
  JsError (cls: error_class) (name: string) (message: string)
          (code: "string option") (cause: "js_error option")

text \<open>
  A thrown value (or the reason of a rejected promise): JavaScript can throw anything, and
  the catch blocks test \<open>error instanceof Error\<close>.
\<close>

datatype thrown = ThrownError js_error | ThrownOther

definition Error :: "string \<Rightarrow> js_error" where
  "Error msg = JsError C_Error ''Error'' msg None None"

definition LoginError :: "string \<Rightarrow> js_error option \<Rightarrow> js_error" where
  "LoginError msg c = JsError C_LoginError ''LoginError'' msg (Some ''LOGIN_ERROR'') c"

definition TokenRefreshError :: "string \<Rightarrow> js_error option \<Rightarrow> js_error" where
  "TokenRefreshError msg c =
     JsError C_TokenRefreshError ''TokenRefreshError'' msg (Some ''TOKEN_REFRESH_ERROR'') c"

definition LogoutError :: "string \<Rightarrow> js_error option \<Rightarrow> js_error" where
  "LogoutError msg c = JsError C_LogoutError ''LogoutError'' msg (Some ''LOGOUT_ERROR'') c"

definition ConfigurationError :: "string \<Rightarrow> js_error option \<Rightarrow> js_error" where
  "ConfigurationError msg c =
     JsError C_ConfigurationError ''ConfigurationError'' msg (Some ''CONFIGURATION_ERROR'') c"

definition CallbackError :: "string \<Rightarrow> js_error option \<Rightarrow> js_error" where
  "CallbackError msg c =
     JsError C_CallbackError ''CallbackError'' msg (Some ''CALLBACK_ERROR'') c"

text \<open>The constructor's parameter defaults to \<open>'User is not authenticated'\<close>.\<close>

definition NotAuthenticatedError :: "string option \<Rightarrow> js_error" where
  "NotAuthenticatedError msg =
     JsError C_NotAuthenticatedError ''NotAuthenticatedError''
       (case msg of None \<Rightarrow> ''User is not authenticated'' | Some m \<Rightarrow> m)
       (Some ''NOT_AUTHENTICATED_ERROR'') None"

text \<open>\<open>error instanceof NotAuthenticatedError\<close>: the class has no subclass.\<close>

definition instanceof_NotAuthenticatedError :: "thrown \<Rightarrow> bool" where
  "instanceof_NotAuthenticatedError t =
     (case t of ThrownError e \<Rightarrow> cls e = C_NotAuthenticatedError | ThrownOther \<Rightarrow> False)"

text \<open>\<open>error instanceof Error ? error : undefined\<close>, the cause handed to a wrapper.\<close>

definition error_or_undefined :: "thrown \<Rightarrow> js_error option" where
  "error_or_undefined t = (case t of ThrownError e \<Rightarrow> Some e | ThrownOther \<Rightarrow> None)"

section \<open>Users (types/user.ts)\<close>

text \<open>A claim value of the profile, which TypeScript types as \<open>unknown\<close>.\<close>

datatype json =
    JNull
  | JBool bool
  | JNum int
  | JStr string
  | JArr "json list"
  | JObj "(string \<times> json) list"

text \<open>
  The session object of the protocol engine (\<open>User\<close> of oidc-client-ts), with the fields
  the SDK reads. \<open>expired\<close> is the engine's getter; only its truthiness is used, so
  \<open>undefined\<close> is \<open>False\<close>. \<open>expires_at\<close> is a number of seconds.
\<close>

record OidcUser =
  oidc_profile :: "string \<rightharpoonup> json"
  id_token :: "string option"
  access_token :: string
  expires_at :: "int option"
  refresh_token :: "string option"
  scope :: "string option"
  expired :: bool

record ScalekitUserMetadata =
  organizationId :: "json option"
  connectionId :: "json option"
  identityProvider :: "json option"
  roles :: "json option"
  groups :: "json option"

text \<open>
  A \<open>Date\<close>: its time value in milliseconds since the epoch, or the Invalid Date that
  \<open>new Date(ms)\<close> gives once \<open>ms\<close> is beyond 8.64e15 in absolute value.
\<close>

datatype js_date = Date int | InvalidDate

definition new_Date :: "int \<Rightarrow> js_date" where
  "new_Date ms = (if \<bar>ms\<bar> \<le> 8640000000000000 then Date ms else InvalidDate)"

record ScalekitUser =
  profile :: "string \<rightharpoonup> json"
  metadata :: ScalekitUserMetadata
  idToken :: string
  accessToken :: string
  expiresAt :: "js_date option"
  refreshToken :: "string option"
  scopes :: "string list"

text \<open>
  \<open>String.prototype.split\<close> with a separator of one character: the pieces between the
  occurrences of the separator, empty pieces kept, so that the empty string gives \<open>['']\<close>.
\<close>

fun js_split :: "char \<Rightarrow> string \<Rightarrow> string list" where
  "js_split sep [] = [[]]"
| "js_split sep (c # cs) =
     (if c = sep then [] # js_split sep cs
      else (case js_split sep cs of
              [] \<Rightarrow> [[c]]
            | w # ws \<Rightarrow> (c # w) # ws))"

text \<open>
  \<open>x || ''\<close> on an optional string: the empty string is falsy as well.
\<close>

definition or_empty :: "string option \<Rightarrow> string" where
  "or_empty x = (case x of None \<Rightarrow> [] | Some s \<Rightarrow> (if s = [] then [] else s))"

text \<open>
  \<open>mapOidcUserToScalekitUser\<close>. The casts \<open>as string | undefined\<close> do nothing at run
  time, so the metadata holds whatever the claim is. \<open>expires_at\<close> of 0 is falsy. An
  array is truthy, so \<open>|| []\<close> applies only when \<open>scope\<close> is undefined.
\<close>

definition mapOidcUserToScalekitUser :: "OidcUser \<Rightarrow> ScalekitUser" where
  "mapOidcUserToScalekitUser oidcUser =
     (let profile = oidc_profile oidcUser;
          metadata = \<lparr> organizationId = profile ''org_id'',
                       connectionId = profile ''connection_id'',
                       identityProvider = profile ''idp'',
                       roles = profile ''roles'',
                       groups = profile ''groups'' \<rparr>
      in \<lparr> profile = profile,
           metadata = metadata,
           idToken = or_empty (id_token oidcUser),
           accessToken = access_token oidcUser,
           expiresAt = (case expires_at oidcUser of
                          None \<Rightarrow> None
                        | Some t \<Rightarrow> (if t = 0 then None else Some (new_Date (t * 1000)))),
           refreshToken = refresh_token oidcUser,
           scopes = (case scope oidcUser of
                       None \<Rightarrow> []
                     | Some s \<Rightarrow> js_split (CHR '' '') s) \<rparr>)"

section \<open>Authentication state (types/auth-state.ts)\<close>

record AuthState =
  isLoading :: bool
  isAuthenticated :: bool
  user :: "ScalekitUser option"
  error :: "js_error option"

datatype AuthAction =
    INITIALIZING
  | INITIALIZED "ScalekitUser option"
  | LOGIN_STARTED
  | LOGIN_COMPLETED ScalekitUser
  | LOGOUT_COMPLETED
  | TOKEN_REFRESHED ScalekitUser
  | ERROR js_error

definition initialAuthState :: AuthState where
  "initialAuthState =
     \<lparr> isLoading = True, isAuthenticated = False, user = None, error = None \<rparr>"

text \<open>
  \<open>authReducer\<close>. The \<open>default\<close> branch of the switch returns the state; no value of
  the union \<open>AuthAction\<close> reaches it.
\<close>

fun authReducer :: "AuthState \<Rightarrow> AuthAction \<Rightarrow> AuthState" where
  "authReducer state INITIALIZING =
     \<lparr> isLoading = True, isAuthenticated = False, user = None, error = None \<rparr>"
| "authReducer state (INITIALIZED action_user) =
     (if action_user \<noteq> None
      then \<lparr> isLoading = False, isAuthenticated = True, user = action_user, error = None \<rparr>
      else \<lparr> isLoading = False, isAuthenticated = False, user = None, error = None \<rparr>)"
| "authReducer state LOGIN_STARTED =
     \<lparr> isLoading = True, isAuthenticated = False, user = None, error = None \<rparr>"
| "authReducer state (LOGIN_COMPLETED action_user) =
     \<lparr> isLoading = False, isAuthenticated = True, user = Some action_user, error = None \<rparr>"
| "authReducer state LOGOUT_COMPLETED =
     \<lparr> isLoading = False, isAuthenticated = False, user = None, error = None \<rparr>"
| "authReducer state (TOKEN_REFRESHED action_user) =
     \<lparr> isLoading = False, isAuthenticated = True, user = Some action_user, error = None \<rparr>"
| "authReducer state (ERROR action_error) =
     \<lparr> isLoading = False, isAuthenticated = False, user = None, error = Some action_error \<rparr>"

section \<open>The state store of the plugin (plugin.ts, dispatch)\<close>

text \<open>
  The parameter of \<open>dispatch\<close> is looser than \<open>AuthAction\<close>:
  \<open>{ type: string; user?: ScalekitUser | null; error?: Error }\<close>.
\<close>

record DispatchAction =
  action_type :: string
  action_user :: "ScalekitUser option"
  action_error :: "js_error option"

text \<open>
  \<open>dispatch\<close> assigns the fields of the reactive state one after the other. The
  non-null assertions \<open>action.user!\<close> and \<open>action.error!\<close> check nothing at run time.
  A type that matches no case leaves the state as it is.
\<close>

definition dispatch :: "DispatchAction \<Rightarrow> AuthState \<Rightarrow> AuthState" where
  "dispatch action state =
     (if action_type action = ''INITIALIZING'' then
        state\<lparr>isLoading := True, isAuthenticated := False, user := None, error := None\<rparr>
      else if action_type action = ''INITIALIZED'' then
        (let s1 = state\<lparr>isLoading := False\<rparr>;
             s2 = (if action_user action \<noteq> None
                   then s1\<lparr>isAuthenticated := True, user := action_user action\<rparr>
                   else s1\<lparr>isAuthenticated := False, user := None\<rparr>)
         in s2\<lparr>error := None\<rparr>)
      else if action_type action = ''LOGIN_STARTED'' then
        state\<lparr>isLoading := True, isAuthenticated := False, user := None, error := None\<rparr>
      else if action_type action = ''LOGIN_COMPLETED'' then
        state\<lparr>isLoading := False, isAuthenticated := True,
              user := action_user action, error := None\<rparr>
      else if action_type action = ''LOGOUT_COMPLETED'' then
        state\<lparr>isLoading := False, isAuthenticated := False, user := None, error := None\<rparr>
      else if action_type action = ''TOKEN_REFRESHED'' then
        state\<lparr>isLoading := False, isAuthenticated := True,
              user := action_user action, error := None\<rparr>
      else if action_type action = ''ERROR'' then
        state\<lparr>isLoading := False, isAuthenticated := False,
              user := None, error := action_error action\<rparr>
      else state)"

text \<open>
  The object literals that the call sites of \<open>dispatch\<close> in the plugin build, one per
  action of the union: a property that is not written is undefined.
\<close>

fun action_literal :: "AuthAction \<Rightarrow> DispatchAction" where
  "action_literal INITIALIZING =
     \<lparr> action_type = ''INITIALIZING'', action_user = None, action_error = None \<rparr>"
| "action_literal (INITIALIZED u) =
     \<lparr> action_type = ''INITIALIZED'', action_user = u, action_error = None \<rparr>"
| "action_literal LOGIN_STARTED =
     \<lparr> action_type = ''LOGIN_STARTED'', action_user = None, action_error = None \<rparr>"
| "action_literal (LOGIN_COMPLETED u) =
     \<lparr> action_type = ''LOGIN_COMPLETED'', action_user = Some u, action_error = None \<rparr>"
| "action_literal LOGOUT_COMPLETED =
     \<lparr> action_type = ''LOGOUT_COMPLETED'', action_user = None, action_error = None \<rparr>"
| "action_literal (TOKEN_REFRESHED u) =
     \<lparr> action_type = ''TOKEN_REFRESHED'', action_user = Some u, action_error = None \<rparr>"
| "action_literal (ERROR e) =
     \<lparr> action_type = ''ERROR'', action_user = None, action_error = Some e \<rparr>"

text \<open>
  The states reachable from the initial one, by the reducer and by \<open>dispatch\<close> on the
  actions of the union.
\<close>

inductive reachable :: "AuthState \<Rightarrow> bool" where
  reachable_initial: "reachable initialAuthState"
| reachable_authReducer: "reachable s \<Longrightarrow> reachable (authReducer s a)"
| reachable_dispatch: "reachable s \<Longrightarrow> reachable (dispatch (action_literal a) s)"

text \<open>The Errored variant of the union \<open>AuthState\<close>.\<close>

definition is_ErrorState :: "AuthState \<Rightarrow> bool" where
  "is_ErrorState s \<longleftrightarrow>
     \<not> isLoading s \<and> \<not> isAuthenticated s \<and> user s = None \<and> error s \<noteq> None"

section \<open>The navigation context and the callback parameters (utils/auth-params.ts)\<close>

text \<open>
  The address is held in the parsed form that \<open>new URL(window.location.href)\<close> gives:
  what precedes the query, the list of name and value pairs of \<open>url.searchParams\<close> in
  their order, and the fragment. Parsing and \<open>url.toString()\<close> are the browser's.
\<close>

record Url =
  url_base :: string
  searchParams :: "(string \<times> string) list"
  url_hash :: string

text \<open>
  \<open>window\<close>: its address, and the addresses handed to
  \<open>window.history.replaceState\<close> so far, which replaces the current entry.
\<close>

record Window =
  location :: Url
  replaceState_calls :: "Url list"

definition OIDC_PARAMS_CODE :: string where "OIDC_PARAMS_CODE = ''code''"
definition OIDC_PARAMS_STATE :: string where "OIDC_PARAMS_STATE = ''state''"
definition OIDC_PARAMS_ERROR :: string where "OIDC_PARAMS_ERROR = ''error''"
definition OIDC_PARAMS_ERROR_DESCRIPTION :: string where
  "OIDC_PARAMS_ERROR_DESCRIPTION = ''error_description''"
definition OIDC_PARAMS_SESSION_STATE :: string where
  "OIDC_PARAMS_SESSION_STATE = ''session_state''"

definition SCALEKIT_PARAMS_ORGANIZATION_ID :: string where
  "SCALEKIT_PARAMS_ORGANIZATION_ID = ''organization_id''"
definition SCALEKIT_PARAMS_CONNECTION_ID :: string where
  "SCALEKIT_PARAMS_CONNECTION_ID = ''connection_id''"
definition SCALEKIT_PARAMS_LOGIN_HINT :: string where
  "SCALEKIT_PARAMS_LOGIN_HINT = ''login_hint''"

text \<open>\<open>URLSearchParams.has\<close> and \<open>URLSearchParams.delete\<close> (every pair of the name).\<close>

definition params_has :: "(string \<times> string) list \<Rightarrow> string \<Rightarrow> bool" where
  "params_has ps k \<longleftrightarrow> k \<in> set (map fst ps)"

definition params_delete :: "(string \<times> string) list \<Rightarrow> string \<Rightarrow> (string \<times> string) list" where
  "params_delete ps k = filter (\<lambda>p. fst p \<noteq> k) ps"

text \<open>
  \<open>hasAuthParams(searchParams?)\<close>: the argument when given, else
  \<open>window.location.search\<close>, which is a ReferenceError where there is no window.
\<close>

definition hasAuthParams ::
  "(string \<times> string) list option \<Rightarrow> Window option \<Rightarrow> thrown + bool" where
  "hasAuthParams arg w =
     (case arg of
        Some ps \<Rightarrow> Inr (params_has ps OIDC_PARAMS_CODE \<or> params_has ps OIDC_PARAMS_ERROR)
      | None \<Rightarrow>
          (case w of
             None \<Rightarrow> Inl (ThrownError
                       (JsError C_ReferenceError ''ReferenceError''
                          ''window is not defined'' None None))
           | Some win \<Rightarrow>
               (let ps = searchParams (location win)
                in Inr (params_has ps OIDC_PARAMS_CODE \<or> params_has ps OIDC_PARAMS_ERROR))))"

definition paramsToRemove :: "string list" where
  "paramsToRemove =
     [OIDC_PARAMS_CODE, OIDC_PARAMS_STATE, OIDC_PARAMS_ERROR,
      OIDC_PARAMS_ERROR_DESCRIPTION, OIDC_PARAMS_SESSION_STATE]"

text \<open>
  One turn of the \<open>forEach\<close> of \<open>cleanupAuthParams\<close>, on the url and the flag
  \<open>hasParams\<close>.
\<close>

definition cleanup_param :: "Url \<times> bool \<Rightarrow> string \<Rightarrow> Url \<times> bool" where
  "cleanup_param acc param =
     (case acc of (url, hasParams) \<Rightarrow>
        (if params_has (searchParams url) param
         then (url\<lparr>searchParams := params_delete (searchParams url) param\<rparr>, True)
         else (url, hasParams)))"

text \<open>
  \<open>cleanupAuthParams\<close>: nothing where there is no window; else the five parameters are
  deleted from a copy of the address, and the history entry is replaced only when one of
  them was there.
\<close>

definition cleanupAuthParams :: "Window option \<Rightarrow> Window option" where
  "cleanupAuthParams w =
     (case w of
        None \<Rightarrow> None
      | Some win \<Rightarrow>
          (case foldl cleanup_param (location win, False) paramsToRemove of
             (url, hasParams) \<Rightarrow>
               (if hasParams
                then Some (win\<lparr>location := url,
                               replaceState_calls := replaceState_calls win @ [url]\<rparr>)
                else Some win)))"

record LoginWithRedirectOptions =
  returnTo :: "string option"
  organizationId :: "string option"
  connectionId :: "string option"
  loginHint :: "string option"
  extraQueryParams :: "(string \<rightharpoonup> string) option"

record LoginWithPopupOptions = LoginWithRedirectOptions +
  popupWidth :: "int option"
  popupHeight :: "int option"

text \<open>The truthiness of an optional string: defined and not empty.\<close>

definition truthy :: "string option \<Rightarrow> bool" where
  "truthy x \<longleftrightarrow> (case x of None \<Rightarrow> False | Some s \<Rightarrow> s \<noteq> [])"

text \<open>
  \<open>Object.assign(target, source)\<close> on a target that is a plain object and a source of
  strings: every own key of the source is assigned on the target, which overwrites. The
  one exception is an own key \<open>__proto__\<close> of the source (as \<open>JSON.parse\<close> can
  give): its assignment goes to the setter of \<open>Object.prototype\<close>, which ignores a
  string, so the target gets no such key.
\<close>

definition Object_assign ::
  "(string \<rightharpoonup> string) \<Rightarrow> (string \<rightharpoonup> string) \<Rightarrow> (string \<rightharpoonup> string)" where
  "Object_assign target source =
     (\<lambda>k. if k = ''__proto__'' then target k else (target ++ source) k)"

text \<open>
  \<open>buildScalekitParams\<close>: the three routing parameters that are truthy, then
  \<open>Object.assign(params, options.extraQueryParams)\<close>.
\<close>

definition buildScalekitParams ::
  "'a LoginWithRedirectOptions_scheme \<Rightarrow> (string \<rightharpoonup> string)" where
  "buildScalekitParams options =
     (let params0 = Map.empty;
          params1 = (if truthy (organizationId options)
                     then params0(SCALEKIT_PARAMS_ORGANIZATION_ID := organizationId options)
                     else params0);
          params2 = (if truthy (connectionId options)
                     then params1(SCALEKIT_PARAMS_CONNECTION_ID := connectionId options)
                     else params1);
          params3 = (if truthy (loginHint options)
                     then params2(SCALEKIT_PARAMS_LOGIN_HINT := loginHint options)
                     else params2)
      in (case extraQueryParams options of
            None \<Rightarrow> params3
          | Some extra \<Rightarrow> Object_assign params3 extra))"

section \<open>Configuration and the protocol engine (utils/user-manager-factory.ts)\<close>

record LogoutOptions =
  federated :: "bool option"
  postLogoutRedirectUri :: "string option"
  state :: "string option"

record GetAccessTokenOptions =
  scopes :: "string list option"
  forceRefresh :: "bool option"

text \<open>
  The configuration as the constructor receives it at run time: a required field that is
  missing is \<open>None\<close>.
\<close>

record ScalekitAuthConfig =
  environmentUrl :: "string option"
  clientId :: "string option"
  redirectUri :: "string option"
  scopes :: "string option"
  postLogoutRedirectUri :: "string option"
  automaticSilentRenew :: "bool option"

text \<open>
  The options of the plugin. The two callbacks are held as whether they are supplied; a
  call of one is recorded in the trace.
\<close>

record ScalekitAuthPluginOptions = ScalekitAuthConfig +
  autoHandleCallback :: "bool option"
  onRedirectCallback :: bool
  onError :: bool

definition DEFAULT_SCOPES :: string where
  "DEFAULT_SCOPES = ''openid profile email offline_access''"

definition RESPONSE_TYPE :: string where
  "RESPONSE_TYPE = ''code''"

text \<open>\<open>url.replace(/\/+$/, '')\<close>: the trailing slashes removed.\<close>

definition normalizeUrl :: "string \<Rightarrow> string" where
  "normalizeUrl url = rev (dropWhile (\<lambda>c. c = CHR ''/'') (rev url))"

record Endpoints =
  issuer :: string
  authorization_endpoint :: string
  token_endpoint :: string
  userinfo_endpoint :: string
  end_session_endpoint :: string
  jwks_uri :: string
  revocation_endpoint :: string
  introspection_endpoint :: string

definition buildScalekitEndpoints :: "string \<Rightarrow> Endpoints" where
  "buildScalekitEndpoints environment_url =
     (let baseUrl = normalizeUrl environment_url
      in \<lparr> issuer = baseUrl,
           authorization_endpoint = baseUrl @ ''/oauth/authorize'',
           token_endpoint = baseUrl @ ''/oauth/token'',
           userinfo_endpoint = baseUrl @ ''/userinfo'',
           end_session_endpoint = baseUrl @ ''/oidc/logout'',
           jwks_uri = baseUrl @ ''/keys'',
           revocation_endpoint = baseUrl @ ''/revoke'',
           introspection_endpoint = baseUrl @ ''/oauth/introspect'' \<rparr>)"

text \<open>
  \<open>validateConfig\<close>, with \<open>url_parses s\<close> for "\<open>new URL(s)\<close> does not throw", which
  is the browser's. The result is the error thrown, if any.
\<close>

definition validateConfig ::
  "(string \<Rightarrow> bool) \<Rightarrow> 'a ScalekitAuthConfig_scheme \<Rightarrow> js_error option" where
  "validateConfig url_parses config =
     (if \<not> truthy (environmentUrl config) then
        Some (ConfigurationError ''environmentUrl is required'' None)
      else if \<not> truthy (clientId config) then
        Some (ConfigurationError ''clientId is required'' None)
      else if \<not> truthy (redirectUri config) then
        Some (ConfigurationError ''redirectUri is required'' None)
      else if \<not> url_parses (or_empty (environmentUrl config)) then
        Some (ConfigurationError
                (''Invalid environmentUrl: '' @ or_empty (environmentUrl config)) None)
      else if \<not> url_parses (or_empty (redirectUri config)) then
        Some (ConfigurationError
                (''Invalid redirectUri URL: '' @ or_empty (redirectUri config)) None)
      else if truthy (postLogoutRedirectUri config)
              \<and> \<not> url_parses (or_empty (postLogoutRedirectUri config)) then
        Some (ConfigurationError
                (''Invalid postLogoutRedirectUri URL: ''
                   @ or_empty (postLogoutRedirectUri config)) None)
      else None)"

text \<open>
  The \<open>metadata\<close> of the settings: the endpoints without \<open>jwks_uri\<close>, which the
  literal leaves out.
\<close>

record Metadata =
  metadata_issuer :: string
  metadata_authorization_endpoint :: string
  metadata_token_endpoint :: string
  metadata_userinfo_endpoint :: string
  metadata_end_session_endpoint :: string
  metadata_revocation_endpoint :: string
  metadata_introspection_endpoint :: string

text \<open>
  The settings handed to \<open>new UserManager\<close>, without the two stores (the storage adapter)
  and the constant flags.
\<close>

record UserManagerSettings =
  authority :: string
  client_id :: "string option"
  redirect_uri :: "string option"
  response_type :: string
  settings_scope :: string
  post_logout_redirect_uri :: "string option"
  settings_automaticSilentRenew :: bool
  settings_metadata :: Metadata

text \<open>
  \<open>mapConfigToSettings\<close>. \<open>normalizeUrl\<close> of an undefined \<open>environmentUrl\<close> is a
  TypeError; \<open>validateConfig\<close> has excluded it before.
\<close>

definition mapConfigToSettings ::
  "'a ScalekitAuthConfig_scheme \<Rightarrow> js_error + UserManagerSettings" where
  "mapConfigToSettings config =
     (case environmentUrl config of
        None \<Rightarrow> Inl (JsError C_TypeError ''TypeError''
                       ''Cannot read properties of undefined (reading 'replace')'' None None)
      | Some url \<Rightarrow>
          (let endpoints = buildScalekitEndpoints url
           in Inr \<lparr> authority = issuer endpoints,
                    client_id = clientId config,
                    redirect_uri = redirectUri config,
                    response_type = RESPONSE_TYPE,
                    settings_scope =
                      (case ScalekitAuthConfig.scopes config of
                         None \<Rightarrow> DEFAULT_SCOPES | Some s \<Rightarrow> s),
                    post_logout_redirect_uri = postLogoutRedirectUri config,
                    settings_automaticSilentRenew =
                      (case automaticSilentRenew config of None \<Rightarrow> True | Some b \<Rightarrow> b),
                    settings_metadata =
                      \<lparr> metadata_issuer = issuer endpoints,
                        metadata_authorization_endpoint = authorization_endpoint endpoints,
                        metadata_token_endpoint = token_endpoint endpoints,
                        metadata_userinfo_endpoint = userinfo_endpoint endpoints,
                        metadata_end_session_endpoint = end_session_endpoint endpoints,
                        metadata_revocation_endpoint = revocation_endpoint endpoints,
                        metadata_introspection_endpoint =
                          introspection_endpoint endpoints \<rparr> \<rparr>))"

text \<open>\<open>createUserManager\<close>: the engine is held as the settings it was built from.\<close>

definition createUserManager ::
  "(string \<Rightarrow> bool) \<Rightarrow> 'a ScalekitAuthConfig_scheme \<Rightarrow> js_error + UserManagerSettings" where
  "createUserManager url_parses config =
     (case validateConfig url_parses config of
        Some e \<Rightarrow> Inl e
      | None \<Rightarrow> mapConfigToSettings config)"

section \<open>The session controller (plugin.ts, createScalekitAuth)\<close>

text \<open>
  The protocol engine is outside the SDK. What its promises settle to is given by a record
  of outcomes, one per method: \<open>Inl\<close> (or \<open>Some\<close>) is the reason of a rejection.
  \<open>url_parses\<close> is the browser's \<open>new URL\<close>, as in \<open>validateConfig\<close>.
\<close>

record Engine =
  url_parses :: "string \<Rightarrow> bool"
  signinRedirectCallback_outcome :: "thrown + OidcUser"
  getUser_outcome :: "thrown + OidcUser option"
  signinSilent_outcome :: "thrown + OidcUser option"
  signinRedirect_outcome :: "thrown option"
  signinPopup_outcome :: "thrown + OidcUser"
  signoutRedirect_outcome :: "thrown option"

text \<open>
  What the controller does to the outside is recorded in a trace: the actions it
  dispatches, the construction of the engine, the calls of the engine (the only ones that
  can reach the network) with their arguments of interest, and the calls of the two
  callbacks of the options.
\<close>

datatype engine_call =
    Call_signinRedirectCallback
  | Call_getUser
  | Call_signinSilent
  | Call_signinRedirect "string option" "(string \<rightharpoonup> string) option"
  | Call_signinPopup int int "(string \<rightharpoonup> string) option"
  | Call_signoutRedirect "string option" "string option"

datatype event =
    Dispatched DispatchAction
  | EngineCreated UserManagerSettings
  | EngineCalled engine_call
  | OnErrorCalled js_error
  | OnRedirectCallbackCalled ScalekitUser

text \<open>
  The variables of the closure of \<open>createScalekitAuth\<close>: the reactive state and
  \<open>userManager\<close> (null until \<open>initialize\<close> has built the engine), with the window and
  the trace.
\<close>

record Controller =
  state :: AuthState
  userManager :: "UserManagerSettings option"
  window :: "Window option"
  trace :: "event list"

definition do_dispatch :: "AuthAction \<Rightarrow> Controller \<Rightarrow> Controller" where
  "do_dispatch a c =
     c\<lparr>state := dispatch (action_literal a) (state c),
       trace := trace c @ [Dispatched (action_literal a)]\<rparr>"

definition record_event :: "event \<Rightarrow> Controller \<Rightarrow> Controller" where
  "record_event ev c = c\<lparr>trace := trace c @ [ev]\<rparr>"

text \<open>The catch block of \<open>handleRedirectCallback\<close>.\<close>

definition handleRedirectCallback_catch ::
  "thrown \<Rightarrow> Controller \<Rightarrow> (js_error + ScalekitUser) \<times> Controller" where
  "handleRedirectCallback_catch err c =
     (let callbackError =
            CallbackError ''Failed to process authentication callback''
              (error_or_undefined err)
      in (Inl callbackError, do_dispatch (ERROR callbackError) c))"

text \<open>
  \<open>handleRedirectCallback\<close>: the guard on the engine is before the try block.
\<close>

definition handleRedirectCallback ::
  "Engine \<Rightarrow> Controller \<Rightarrow> (js_error + ScalekitUser) \<times> Controller" where
  "handleRedirectCallback env c =
     (if userManager c = None then
        (Inl (CallbackError ''UserManager not initialized'' None), c)
      else
        (let c1 = record_event (EngineCalled Call_signinRedirectCallback) c
         in (case signinRedirectCallback_outcome env of
               Inl err \<Rightarrow> handleRedirectCallback_catch err c1
             | Inr oidcUser \<Rightarrow>
                 (let scalekitUser = mapOidcUserToScalekitUser oidcUser;
                      c2 = do_dispatch (LOGIN_COMPLETED scalekitUser) c1;
                      c3 = c2\<lparr>window := cleanupAuthParams (window c2)\<rparr>
                  in (Inr scalekitUser, c3)))))"

text \<open>The catch block of \<open>initialize\<close>.\<close>

definition initialize_catch ::
  "'a ScalekitAuthPluginOptions_scheme \<Rightarrow> thrown \<Rightarrow> Controller \<Rightarrow> Controller" where
  "initialize_catch options err c =
     (let initError = (case err of
                         ThrownError e \<Rightarrow> e
                       | ThrownOther \<Rightarrow> Error ''Initialization failed'');
          c1 = do_dispatch (ERROR initError) c
      in if onError options then record_event (OnErrorCalled initError) c1 else c1)"

text \<open>The second half of the try block of \<open>initialize\<close>: the existing session.\<close>

definition initialize_session ::
  "'a ScalekitAuthPluginOptions_scheme \<Rightarrow> Engine \<Rightarrow> Controller \<Rightarrow> Controller" where
  "initialize_session options env c =
     (let c1 = record_event (EngineCalled Call_getUser) c
      in (case getUser_outcome env of
            Inl err \<Rightarrow> initialize_catch options err c1
          | Inr None \<Rightarrow> do_dispatch (INITIALIZED None) c1
          | Inr (Some oidcUser) \<Rightarrow>
              (if \<not> expired oidcUser
               then do_dispatch (INITIALIZED (Some (mapOidcUserToScalekitUser oidcUser))) c1
               else do_dispatch (INITIALIZED None) c1)))"

text \<open>
  The try block of \<open>initialize\<close>. \<open>autoHandleCallback\<close> defaults to true, and
  \<open>hasAuthParams()\<close> is called only when it is true.
\<close>

definition initialize_try ::
  "'a ScalekitAuthPluginOptions_scheme \<Rightarrow> Engine \<Rightarrow> Controller \<Rightarrow> Controller" where
  "initialize_try options env c =
     (if (case autoHandleCallback options of None \<Rightarrow> True | Some b \<Rightarrow> b) then
        (case hasAuthParams None (window c) of
           Inl err \<Rightarrow> initialize_catch options err c
         | Inr True \<Rightarrow>
             (case handleRedirectCallback env c of
                (Inl e, c1) \<Rightarrow> initialize_catch options (ThrownError e) c1
              | (Inr u, c1) \<Rightarrow>
                  (if onRedirectCallback options
                   then record_event (OnRedirectCallbackCalled u) c1 else c1))
         | Inr False \<Rightarrow> initialize_session options env c)
      else initialize_session options env c)"

text \<open>
  \<open>initialize\<close>, an async function: the result is how its promise settles (\<open>Some\<close> is
  the reason of the rejection) and the controller then. \<open>createUserManager\<close> is called
  before the try block. The four listeners are registered when the engine is built; their
  bodies are \<open>on_notification\<close> below.
\<close>

definition initialize ::
  "'a ScalekitAuthPluginOptions_scheme \<Rightarrow> Engine \<Rightarrow> Controller
     \<Rightarrow> thrown option \<times> Controller" where
  "initialize options env c =
     (case createUserManager (url_parses env) options of
        Inl e \<Rightarrow> (Some (ThrownError e), c)
      | Inr um \<Rightarrow>
          (let c1 = record_event (EngineCreated um) (c\<lparr>userManager := Some um\<rparr>)
           in (None, initialize_try options env c1)))"

text \<open>
  \<open>Object.keys(extraQueryParams).length > 0 ? extraQueryParams : undefined\<close>.
\<close>

definition nonempty_or_undefined :: "(string \<rightharpoonup> string) \<Rightarrow> (string \<rightharpoonup> string) option" where
  "nonempty_or_undefined m = (if dom m \<noteq> {} then Some m else None)"

definition loginWithRedirect ::
  "Engine \<Rightarrow> 'a LoginWithRedirectOptions_scheme \<Rightarrow> Controller
     \<Rightarrow> (js_error + unit) \<times> Controller" where
  "loginWithRedirect env options c =
     (if userManager c = None then
        (Inl (LoginError ''UserManager not initialized'' None), c)
      else
        (let c1 = do_dispatch LOGIN_STARTED c;
             extra = buildScalekitParams options;
             c2 = record_event
                    (EngineCalled
                       (Call_signinRedirect
                          (if truthy (returnTo options) then returnTo options else None)
                          (nonempty_or_undefined extra))) c1
         in (case signinRedirect_outcome env of
               None \<Rightarrow> (Inr (), c2)
             | Some err \<Rightarrow>
                 (let loginError =
                        LoginError ''Failed to initiate login'' (error_or_undefined err)
                  in (Inl loginError, do_dispatch (ERROR loginError) c2)))))"

definition DEFAULT_POPUP_CONFIG_WIDTH :: int where "DEFAULT_POPUP_CONFIG_WIDTH = 500"
definition DEFAULT_POPUP_CONFIG_HEIGHT :: int where "DEFAULT_POPUP_CONFIG_HEIGHT = 600"

definition loginWithPopup ::
  "Engine \<Rightarrow> 'a LoginWithPopupOptions_scheme \<Rightarrow> Controller
     \<Rightarrow> (js_error + ScalekitUser) \<times> Controller" where
  "loginWithPopup env options c =
     (if userManager c = None then
        (Inl (LoginError ''UserManager not initialized'' None), c)
      else
        (let c1 = do_dispatch LOGIN_STARTED c;
             extra = buildScalekitParams options;
             width = (case popupWidth options of
                        None \<Rightarrow> DEFAULT_POPUP_CONFIG_WIDTH | Some n \<Rightarrow> n);
             height = (case popupHeight options of
                         None \<Rightarrow> DEFAULT_POPUP_CONFIG_HEIGHT | Some n \<Rightarrow> n);
             c2 = record_event
                    (EngineCalled
                       (Call_signinPopup width height (nonempty_or_undefined extra))) c1
         in (case signinPopup_outcome env of
               Inr oidcUser \<Rightarrow>
                 (let scalekitUser = mapOidcUserToScalekitUser oidcUser
                  in (Inr scalekitUser, do_dispatch (LOGIN_COMPLETED scalekitUser) c2))
             | Inl err \<Rightarrow>
                 (let loginError = LoginError ''Popup login failed'' (error_or_undefined err)
                  in (Inl loginError, do_dispatch (ERROR loginError) c2)))))"

text \<open>\<open>logout\<close>: nothing is dispatched where \<open>signoutRedirect\<close> resolves.\<close>

definition logout ::
  "Engine \<Rightarrow> LogoutOptions \<Rightarrow> Controller \<Rightarrow> (js_error + unit) \<times> Controller" where
  "logout env options c =
     (if userManager c = None then
        (Inl (LogoutError ''UserManager not initialized'' None), c)
      else
        (let c1 = record_event
                    (EngineCalled
                       (Call_signoutRedirect
                          (LogoutOptions.postLogoutRedirectUri options)
                          (LogoutOptions.state options))) c
         in (case signoutRedirect_outcome env of
               None \<Rightarrow> (Inr (), c1)
             | Some err \<Rightarrow>
                 (let logoutError = LogoutError ''Logout failed'' (error_or_undefined err)
                  in (Inl logoutError, do_dispatch (ERROR logoutError) c1)))))"

text \<open>
  The try block of \<open>getAccessToken\<close>: what it throws (\<open>Inl\<close>) or returns, and the
  controller with the calls of the engine recorded.
\<close>

definition getAccessToken_try ::
  "Engine \<Rightarrow> GetAccessTokenOptions \<Rightarrow> Controller \<Rightarrow> (thrown + string) \<times> Controller" where
  "getAccessToken_try env options c =
     (let c1 = record_event (EngineCalled Call_getUser) c
      in (case getUser_outcome env of
            Inl err \<Rightarrow> (Inl err, c1)
          | Inr None \<Rightarrow> (Inl (ThrownError (NotAuthenticatedError None)), c1)
          | Inr (Some oidcUser) \<Rightarrow>
              (if forceRefresh options = Some True \<or> expired oidcUser then
                 (let c2 = record_event (EngineCalled Call_signinSilent) c1
                  in (case signinSilent_outcome env of
                        Inl err \<Rightarrow> (Inl err, c2)
                      | Inr None \<Rightarrow>
                          (Inl (ThrownError
                                  (TokenRefreshError ''Silent refresh returned no user'' None)),
                           c2)
                      | Inr (Some renewed) \<Rightarrow> (Inr (access_token renewed), c2)))
               else (Inr (access_token oidcUser), c1))))"

text \<open>The catch block of \<open>getAccessToken\<close>: the error it throws.\<close>

definition getAccessToken_catch :: "thrown \<Rightarrow> js_error" where
  "getAccessToken_catch err =
     (case err of
        ThrownError e \<Rightarrow>
          (if instanceof_NotAuthenticatedError err then e
           else TokenRefreshError ''Failed to get access token'' (error_or_undefined err))
      | ThrownOther \<Rightarrow>
          TokenRefreshError ''Failed to get access token'' (error_or_undefined err))"

definition getAccessToken ::
  "Engine \<Rightarrow> GetAccessTokenOptions \<Rightarrow> Controller \<Rightarrow> (js_error + string) \<times> Controller" where
  "getAccessToken env options c =
     (if userManager c = None then
        (Inl (NotAuthenticatedError (Some ''UserManager not initialized'')), c)
      else
        (case getAccessToken_try env options c of
           (Inl err, c1) \<Rightarrow> (Inl (getAccessToken_catch err), c1)
         | (Inr token, c1) \<Rightarrow> (Inr token, c1)))"

definition refreshToken ::
  "Engine \<Rightarrow> Controller \<Rightarrow> (js_error + ScalekitUser option) \<times> Controller" where
  "refreshToken env c =
     (if userManager c = None then (Inr None, c)
      else
        (let c1 = record_event (EngineCalled Call_signinSilent) c
         in (case signinSilent_outcome env of
               Inr (Some oidcUser) \<Rightarrow>
                 (let scalekitUser = mapOidcUserToScalekitUser oidcUser
                  in (Inr (Some scalekitUser), do_dispatch (TOKEN_REFRESHED scalekitUser) c1))
             | Inr None \<Rightarrow> (Inr None, c1)
             | Inl err \<Rightarrow>
                 (let refreshError =
                        TokenRefreshError ''Token refresh failed'' (error_or_undefined err)
                  in (Inl refreshError, do_dispatch (ERROR refreshError) c1)))))"

text \<open>
  The notifications of the engine and the four listeners that \<open>initialize\<close> registers.
  The engine raises them on its own, also while one of its calls is in progress; each is
  a step of its own here.
\<close>

datatype notification =
    UserLoaded OidcUser
  | UserUnloaded
  | SilentRenewError js_error
  | AccessTokenExpired

fun on_notification ::
  "'a ScalekitAuthPluginOptions_scheme \<Rightarrow> notification \<Rightarrow> Controller \<Rightarrow> Controller" where
  "on_notification options (UserLoaded oidcUser) c =
     do_dispatch (TOKEN_REFRESHED (mapOidcUserToScalekitUser oidcUser)) c"
| "on_notification options UserUnloaded c = do_dispatch LOGOUT_COMPLETED c"
| "on_notification options (SilentRenewError err) c =
     (let refreshError = TokenRefreshError ''Silent token renewal failed'' (Some err);
          c1 = do_dispatch (ERROR refreshError) c
      in if onError options then record_event (OnErrorCalled refreshError) c1 else c1)"
| "on_notification options AccessTokenExpired c = do_dispatch LOGOUT_COMPLETED c"

text \<open>
  \<open>createScalekitAuth\<close>: the state starts as \<open>initialAuthState\<close>, \<open>userManager\<close> as
  null, and \<open>initialize()\<close> is called without \<open>await\<close> and without a handler for its
  promise, which is dropped. The result is \<open>Inr\<close> of the instance: no path of the function
  throws. The state of the instance is the reactive object, so it is given here as it is
  once \<open>initialize\<close> has settled.
\<close>

definition createScalekitAuth ::
  "'a ScalekitAuthPluginOptions_scheme \<Rightarrow> Engine \<Rightarrow> Window option
     \<Rightarrow> js_error + Controller" where
  "createScalekitAuth options env w =
     (let c0 = \<lparr> state = initialAuthState, userManager = None, window = w, trace = [] \<rparr>
      in (case initialize options env c0 of (settled, c) \<Rightarrow> Inr c))"

text \<open>
  Everything that can dispatch after the construction: the six methods of the instance and
  the four listeners, which exist once the engine does.
\<close>

datatype operation =
    Op_loginWithRedirect LoginWithRedirectOptions
  | Op_loginWithPopup LoginWithPopupOptions
  | Op_logout LogoutOptions
  | Op_getAccessToken GetAccessTokenOptions
  | Op_refreshToken
  | Op_handleRedirectCallback
  | Op_notification notification

fun perform ::
  "'a ScalekitAuthPluginOptions_scheme \<Rightarrow> Engine \<Rightarrow> operation \<Rightarrow> Controller \<Rightarrow> Controller" where
  "perform options env (Op_loginWithRedirect lo) c = snd (loginWithRedirect env lo c)"
| "perform options env (Op_loginWithPopup po) c = snd (loginWithPopup env po c)"
| "perform options env (Op_logout lo) c = snd (logout env lo c)"
| "perform options env (Op_getAccessToken go) c = snd (getAccessToken env go c)"
| "perform options env Op_refreshToken c = snd (refreshToken env c)"
| "perform options env Op_handleRedirectCallback c = snd (handleRedirectCallback env c)"
| "perform options env (Op_notification n) c =
     (if userManager c = None then c else on_notification options n c)"

text \<open>The actions that an operation adds to the trace.\<close>

definition dispatched_types :: "event list \<Rightarrow> string list" where
  "dispatched_types evs =
     concat (map (\<lambda>ev. case ev of Dispatched a \<Rightarrow> [action_type a] | _ \<Rightarrow> []) evs)"

definition new_events :: "Controller \<Rightarrow> Controller \<Rightarrow> event list" where
  "new_events c c' = drop (length (trace c)) (trace c')"

section \<open>Concrete inputs\<close>

text \<open>
  A session, a valid configuration, the engine built from it, and outcomes of the engine,
  used where a property is evaluated at a concrete input.
\<close>

definition example_user :: OidcUser where
  "example_user =
     \<lparr> oidc_profile = [''sub'' \<mapsto> JStr ''user_1''], id_token = None,
       access_token = ''at_1'', expires_at = Some 1700000000, refresh_token = None,
       scope = Some ''openid profile'', expired = False \<rparr>"

definition example_options :: ScalekitAuthPluginOptions where
  "example_options =
     \<lparr> environmentUrl = Some ''https://tenant.scalekit.cloud'',
       clientId = Some ''client_1'',
       redirectUri = Some ''http://localhost:3000/callback'',
       scopes = None, postLogoutRedirectUri = None, automaticSilentRenew = None,
       autoHandleCallback = None, onRedirectCallback = False, onError = True \<rparr>"

definition example_settings :: UserManagerSettings where
  "example_settings =
     \<lparr> authority = ''https://tenant.scalekit.cloud'',
       client_id = Some ''client_1'',
       redirect_uri = Some ''http://localhost:3000/callback'',
       response_type = RESPONSE_TYPE,
       settings_scope = DEFAULT_SCOPES,
       post_logout_redirect_uri = None,
       settings_automaticSilentRenew = True,
       settings_metadata =
         \<lparr> metadata_issuer = ''https://tenant.scalekit.cloud'',
           metadata_authorization_endpoint = ''https://tenant.scalekit.cloud/oauth/authorize'',
           metadata_token_endpoint = ''https://tenant.scalekit.cloud/oauth/token'',
           metadata_userinfo_endpoint = ''https://tenant.scalekit.cloud/userinfo'',
           metadata_end_session_endpoint = ''https://tenant.scalekit.cloud/oidc/logout'',
           metadata_revocation_endpoint = ''https://tenant.scalekit.cloud/revoke'',
           metadata_introspection_endpoint =
             ''https://tenant.scalekit.cloud/oauth/introspect'' \<rparr> \<rparr>"

definition example_engine :: Engine where
  "example_engine =
     \<lparr> url_parses = (\<lambda>s. True),
       signinRedirectCallback_outcome = Inl ThrownOther,
       getUser_outcome = Inr (Some example_user),
       signinSilent_outcome = Inr None,
       signinRedirect_outcome = None,
       signinPopup_outcome = Inr example_user,
       signoutRedirect_outcome = None \<rparr>"


definition controller_signed_in :: Controller where
  "controller_signed_in =
     \<lparr> state = authReducer initialAuthState
                 (INITIALIZED (Some (mapOidcUserToScalekitUser example_user))),
       userManager = Some example_settings, window = None, trace = [] \<rparr>"


definition default_token_options :: GetAccessTokenOptions where
  "default_token_options = \<lparr> GetAccessTokenOptions.scopes = None, forceRefresh = None \<rparr>"

definition default_logout_options :: LogoutOptions where
  "default_logout_options =
     \<lparr> federated = None, LogoutOptions.postLogoutRedirectUri = None,
       LogoutOptions.state = None \<rparr>"


definition window_callback :: Window where
  "window_callback =
     \<lparr> location = \<lparr> url_base = ''http://localhost:3000/callback'',
                     searchParams = [(''code'', ''abc123''), (''tab'', ''1''), (''state'', ''xyz'')],
                     url_hash = [] \<rparr>,
       replaceState_calls = [] \<rparr>"

definition window_clean :: Window where
  "window_clean =
     \<lparr> location = \<lparr> url_base = ''http://localhost:3000/callback'',
                     searchParams = [(''tab'', ''1'')],
                     url_hash = [] \<rparr>,
       replaceState_calls = [] \<rparr>"

section \<open>Properties of the state store\<close>

lemma dispatch_action_literal: "dispatch (action_literal a) s = authReducer s a"
  by (cases a) (simp_all add: dispatch_def)

lemma authReducer_invariant:
  "(isAuthenticated (authReducer s a) \<longleftrightarrow>
      user (authReducer s a) \<noteq> None \<and> error (authReducer s a) = None) \<and>
   (error (authReducer s a) \<noteq> None \<longrightarrow> is_ErrorState (authReducer s a))"
  by (cases a) (simp_all add: is_ErrorState_def)

text \<open>
  C1: in every state reachable from the initial Initializing state by actions of the
  reducer or of dispatch, isAuthenticated holds exactly when the user is present and the
  error is absent, and an error is present only in the Errored variant, where
  isAuthenticated is false and the user is absent.
\<close>

theorem reachable_invariant:
  assumes "reachable s"
  shows "(isAuthenticated s \<longleftrightarrow> user s \<noteq> None \<and> error s = None) \<and>
         (error s \<noteq> None \<longrightarrow>
            is_ErrorState s \<and> \<not> isAuthenticated s \<and> user s = None)"
  using assms
proof (induction rule: reachable.induct)
  case reachable_initial
  show ?case by (simp add: initialAuthState_def)
next
  case (reachable_authReducer s a)
  show ?case using authReducer_invariant [of s a] by (auto simp: is_ErrorState_def)
next
  case (reachable_dispatch s a)
  show ?case
    using authReducer_invariant [of s a]
    by (auto simp: dispatch_action_literal is_ErrorState_def)
qed

section \<open>Properties of the user mapping\<close>

text \<open>
  C7: mapping a session of the engine whose scope is the string "openid profile" gives a
  user whose scopes are the list of "openid" and "profile", in this order; mapping a
  session without a scope gives the empty list.
\<close>

theorem mapOidcUserToScalekitUser_scopes:
  "ScalekitUser.scopes (mapOidcUserToScalekitUser (u\<lparr>scope := Some ''openid profile''\<rparr>))
     = [''openid'', ''profile''] \<and>
   ScalekitUser.scopes (mapOidcUserToScalekitUser (u\<lparr>scope := None\<rparr>)) = []"
  by (simp add: mapOidcUserToScalekitUser_def Let_def)

text \<open>
  C10: where the id_token of the session is absent or the empty string, the idToken of
  the mapped user is the empty string. It is a string in every case, by its type.
\<close>

theorem mapOidcUserToScalekitUser_idToken:
  "id_token u = None \<or> id_token u = Some [] \<Longrightarrow> idToken (mapOidcUserToScalekitUser u) = []"
  by (auto simp: mapOidcUserToScalekitUser_def or_empty_def Let_def)

section \<open>Properties of the callback parameters\<close>

lemma params_has_delete:
  "params_has (params_delete ps k) p \<longleftrightarrow> params_has ps p \<and> p \<noteq> k"
  by (auto simp: params_has_def params_delete_def)

lemma params_delete_absent:
  "\<not> params_has ps k \<Longrightarrow> params_delete ps k = ps"
  by (induction ps) (auto simp: params_has_def params_delete_def)

lemma cleanup_fold:
  "foldl cleanup_param (url, h) ks =
     (url\<lparr>searchParams := filter (\<lambda>p. fst p \<notin> set ks) (searchParams url)\<rparr>,
      h \<or> (\<exists>k \<in> set ks. params_has (searchParams url) k))"
proof (induction ks arbitrary: url h)
  case Nil
  show ?case by simp
next
  case (Cons k ks)
  show ?case
  proof (cases "params_has (searchParams url) k")
    case True
    then show ?thesis
      using Cons.IH [of "url\<lparr>searchParams := params_delete (searchParams url) k\<rparr>" True]
      by (auto simp: cleanup_param_def params_delete_def conj_commute)
  next
    case False
    have "filter (\<lambda>p. fst p \<notin> set (k # ks)) (searchParams url)
            = filter (\<lambda>p. fst p \<notin> set ks) (searchParams url)"
      using False by (auto simp: params_has_def intro!: filter_cong)
    then show ?thesis
      using False Cons.IH [of url h]
      by (auto simp: cleanup_param_def)
  qed
qed

lemma cleanup_fold_none:
  "\<forall>k \<in> set ks. \<not> params_has (searchParams url) k \<Longrightarrow>
   foldl cleanup_param (url, False) ks = (url, False)"
  by (induction ks) (auto simp: cleanup_param_def)

text \<open>
  C6: cleanupAuthParams is idempotent: a second run in a row leaves the window as the
  first run left it, so the cleaned address is the same and no history entry is replaced
  again; and a run on an address with none of the five redirect parameters changes
  nothing and replaces no history entry.
\<close>

theorem cleanupAuthParams_idempotent:
  "cleanupAuthParams (cleanupAuthParams w) = cleanupAuthParams w \<and>
   ((\<forall>k \<in> set paramsToRemove. \<not> params_has (searchParams (location win)) k) \<longrightarrow>
      cleanupAuthParams (Some win) = Some win)"
proof
  show "cleanupAuthParams (cleanupAuthParams w) = cleanupAuthParams w"
  proof (cases w)
    case None
    then show ?thesis by (simp add: cleanupAuthParams_def)
  next
    case (Some win0)
    show ?thesis
    proof (cases "\<exists>k \<in> set paramsToRemove. params_has (searchParams (location win0)) k")
      case True
      let ?url = "(location win0)\<lparr>searchParams :=
                     filter (\<lambda>p. fst p \<notin> set paramsToRemove) (searchParams (location win0))\<rparr>"
      have none: "\<forall>k \<in> set paramsToRemove. \<not> params_has (searchParams ?url) k"
        by (auto simp: params_has_def)
      have first: "cleanupAuthParams w =
                     Some (win0\<lparr>location := ?url,
                               replaceState_calls := replaceState_calls win0 @ [?url]\<rparr>)"
        using True Some by (simp add: cleanupAuthParams_def cleanup_fold)
      show ?thesis
        unfolding first
        using cleanup_fold_none [OF none]
        by (simp add: cleanupAuthParams_def)
    next
      case False
      then have "cleanupAuthParams w = w"
        using Some by (simp add: cleanupAuthParams_def cleanup_fold_none)
      then show ?thesis by simp
    qed
  qed
next
  show "(\<forall>k \<in> set paramsToRemove. \<not> params_has (searchParams (location win)) k) \<longrightarrow>
          cleanupAuthParams (Some win) = Some win"
    by (simp add: cleanupAuthParams_def cleanup_fold_none)
qed



lemma Object_assign_proto_dropped:
  "Object_assign Map.empty [''__proto__'' \<mapsto> v] ''__proto__'' = None"
  by (simp add: Object_assign_def)



section \<open>Properties of the session controller\<close>

text \<open>A valid configuration passes the validation and builds the engine.\<close>

lemma createUserManager_example:
  "createUserManager (url_parses example_engine) example_options = Inr example_settings"
  by (simp add: createUserManager_def validateConfig_def mapConfigToSettings_def
        example_options_def example_engine_def example_settings_def truthy_def or_empty_def
        Let_def buildScalekitEndpoints_def normalizeUrl_def)

text \<open>
  C2: the construction with a missing clientId. The validation throws the
  ConfigurationError inside the async function initialize, outside its try block: the
  promise of initialize is rejected with it, and nothing was built, called, dispatched or
  reported before. The call createScalekitAuth itself does not fail: it returns the
  instance, with no engine and the state still Initializing.
\<close>

theorem createScalekitAuth_missing_clientId:
  "createScalekitAuth (example_options\<lparr>clientId := None\<rparr>) env w =
     Inr \<lparr> state = initialAuthState, userManager = None, window = w, trace = [] \<rparr> \<and>
   fst (initialize (example_options\<lparr>clientId := None\<rparr>) env
          \<lparr> state = initialAuthState, userManager = None, window = w, trace = [] \<rparr>) =
     Some (ThrownError (ConfigurationError ''clientId is required'' None))"
  by (simp add: createScalekitAuth_def initialize_def createUserManager_def validateConfig_def
        example_options_def truthy_def)

lemma getAccessToken_catch_class:
  "cls (getAccessToken_catch t) = C_NotAuthenticatedError \<or>
   getAccessToken_catch t = TokenRefreshError ''Failed to get access token'' (error_or_undefined t)"
  by (cases t)
     (simp_all add: getAccessToken_catch_def instanceof_NotAuthenticatedError_def)

lemma getAccessToken_try_cases:
  "fst (getAccessToken_try env options c) = Inl t \<Longrightarrow>
     t = ThrownError (NotAuthenticatedError None) \<or>
     t = ThrownError (TokenRefreshError ''Silent refresh returned no user'' None) \<or>
     getUser_outcome env = Inl t \<or> signinSilent_outcome env = Inl t"
  by (auto simp: getAccessToken_try_def Let_def split: sum.splits option.splits if_splits)

lemma getAccessToken_result:
  "userManager c \<noteq> None \<Longrightarrow>
   fst (getAccessToken env options c) =
     (case fst (getAccessToken_try env options c) of
        Inl t \<Rightarrow> Inl (getAccessToken_catch t)
      | Inr token \<Rightarrow> Inr token)"
  by (cases "userManager c") (auto simp: getAccessToken_def split: prod.splits sum.splits)

text \<open>
  C3: with no persisted session getAccessToken fails with the NotAuthenticatedError
  itself, not wrapped; a silent renewal that gives no session fails with a
  TokenRefreshError that wraps the cause; a rejection of the engine that is not a
  NotAuthenticatedError is wrapped in a TokenRefreshError; and every failure of
  getAccessToken is a NotAuthenticatedError or such a TokenRefreshError.
\<close>

theorem getAccessToken_failures:
  "(userManager c \<noteq> None \<and> getUser_outcome env = Inr None \<longrightarrow>
      fst (getAccessToken env options c) = Inl (NotAuthenticatedError None)) \<and>
   (userManager c \<noteq> None \<and> getUser_outcome env = Inr (Some u) \<and>
    (forceRefresh options = Some True \<or> expired u) \<and> signinSilent_outcome env = Inr None \<longrightarrow>
      fst (getAccessToken env options c) =
        Inl (TokenRefreshError ''Failed to get access token''
               (Some (TokenRefreshError ''Silent refresh returned no user'' None)))) \<and>
   (userManager c \<noteq> None \<and> \<not> instanceof_NotAuthenticatedError t \<and>
    (getUser_outcome env = Inl t \<or>
     getUser_outcome env = Inr (Some u) \<and> (forceRefresh options = Some True \<or> expired u) \<and>
     signinSilent_outcome env = Inl t) \<longrightarrow>
      fst (getAccessToken env options c) =
        Inl (TokenRefreshError ''Failed to get access token'' (error_or_undefined t))) \<and>
   (\<forall>e. fst (getAccessToken env options c) = Inl e \<longrightarrow>
      cls e = C_NotAuthenticatedError \<or>
      e = TokenRefreshError ''Failed to get access token'' (cause e))"
proof (intro conjI impI allI)
  assume "userManager c \<noteq> None \<and> getUser_outcome env = Inr None"
  then show "fst (getAccessToken env options c) = Inl (NotAuthenticatedError None)"
    by (simp add: getAccessToken_result getAccessToken_try_def getAccessToken_catch_def
          instanceof_NotAuthenticatedError_def NotAuthenticatedError_def)
next
  assume "userManager c \<noteq> None \<and> getUser_outcome env = Inr (Some u) \<and>
          (forceRefresh options = Some True \<or> expired u) \<and> signinSilent_outcome env = Inr None"
  then show "fst (getAccessToken env options c) =
               Inl (TokenRefreshError ''Failed to get access token''
                      (Some (TokenRefreshError ''Silent refresh returned no user'' None)))"
    by (auto simp: getAccessToken_result getAccessToken_try_def getAccessToken_catch_def
          instanceof_NotAuthenticatedError_def TokenRefreshError_def error_or_undefined_def
          Let_def)
next
  assume h: "userManager c \<noteq> None \<and> \<not> instanceof_NotAuthenticatedError t \<and>
     (getUser_outcome env = Inl t \<or>
      getUser_outcome env = Inr (Some u) \<and> (forceRefresh options = Some True \<or> expired u) \<and>
      signinSilent_outcome env = Inl t)"
  then have "fst (getAccessToken_try env options c) = Inl t"
    by (auto simp: getAccessToken_try_def Let_def)
  moreover have "getAccessToken_catch t =
                   TokenRefreshError ''Failed to get access token'' (error_or_undefined t)"
    using h by (cases t) (simp_all add: getAccessToken_catch_def)
  ultimately show "fst (getAccessToken env options c) =
                     Inl (TokenRefreshError ''Failed to get access token'' (error_or_undefined t))"
    using h by (simp add: getAccessToken_result)
next
  fix e
  assume r: "fst (getAccessToken env options c) = Inl e"
  show "cls e = C_NotAuthenticatedError \<or>
        e = TokenRefreshError ''Failed to get access token'' (cause e)"
  proof (cases "userManager c = None")
    case True
    then show ?thesis
      using r by (auto simp: getAccessToken_def NotAuthenticatedError_def)
  next
    case False
    then obtain t where "e = getAccessToken_catch t"
      using r by (auto simp: getAccessToken_result split: sum.splits)
    then show ?thesis
      using getAccessToken_catch_class [of t]
      by (auto simp: TokenRefreshError_def)
  qed
qed

text \<open>
  C4: where a persisted session exists, is not expired, and forceRefresh is not
  requested, getAccessToken returns the access token of that session, and its only call
  of the engine is the read of the persisted session: no silent renewal.
\<close>

theorem getAccessToken_no_renewal:
  assumes "userManager c \<noteq> None"
      and "getUser_outcome env = Inr (Some u)"
      and "\<not> expired u"
      and "forceRefresh options \<noteq> Some True"
  shows "getAccessToken env options c =
           (Inr (access_token u), record_event (EngineCalled Call_getUser) c) \<and>
         new_events c (snd (getAccessToken env options c)) = [EngineCalled Call_getUser]"
  using assms
  by (simp add: getAccessToken_def getAccessToken_try_def Let_def new_events_def
        record_event_def)





lemma new_events_append [simp]:
  "trace c' = trace c @ evs \<Longrightarrow> new_events c c' = evs"
  by (simp add: new_events_def)

lemma logout_trace:
  "trace (snd (logout env lo c)) =
     trace c @
     (if userManager c = None then []
      else EngineCalled (Call_signoutRedirect (LogoutOptions.postLogoutRedirectUri lo)
                           (LogoutOptions.state lo)) #
           (case signoutRedirect_outcome env of
              None \<Rightarrow> []
            | Some err \<Rightarrow>
                [Dispatched (action_literal
                   (ERROR (LogoutError ''Logout failed'' (error_or_undefined err))))]))"
  by (simp add: logout_def Let_def record_event_def do_dispatch_def split: option.splits)

lemma logout_no_LOGOUT_COMPLETED:
  "''LOGOUT_COMPLETED'' \<notin> set (dispatched_types (new_events c (snd (logout env lo c))))"
  by (auto simp: new_events_append [OF logout_trace] dispatched_types_def split: option.splits)

lemma loginWithRedirect_no_LOGOUT_COMPLETED:
  "''LOGOUT_COMPLETED'' \<notin>
     set (dispatched_types (new_events c (snd (loginWithRedirect env lo c))))"
  by (simp add: loginWithRedirect_def Let_def record_event_def do_dispatch_def new_events_def
        dispatched_types_def split: option.splits)

lemma loginWithPopup_no_LOGOUT_COMPLETED:
  "''LOGOUT_COMPLETED'' \<notin>
     set (dispatched_types (new_events c (snd (loginWithPopup env po c))))"
  by (simp add: loginWithPopup_def Let_def record_event_def do_dispatch_def new_events_def
        dispatched_types_def split: sum.splits)

lemma getAccessToken_no_dispatch:
  "dispatched_types (new_events c (snd (getAccessToken env go c))) = []"
  by (simp add: getAccessToken_def getAccessToken_try_def Let_def record_event_def
        new_events_def dispatched_types_def split: sum.splits option.splits prod.splits)

lemma refreshToken_no_LOGOUT_COMPLETED:
  "''LOGOUT_COMPLETED'' \<notin> set (dispatched_types (new_events c (snd (refreshToken env c))))"
  by (simp add: refreshToken_def Let_def record_event_def do_dispatch_def new_events_def
        dispatched_types_def split: sum.splits option.splits)

lemma handleRedirectCallback_trace:
  "\<exists>evs. trace (snd (handleRedirectCallback env c)) = trace c @ evs \<and>
         ''LOGOUT_COMPLETED'' \<notin> set (dispatched_types evs)"
  by (simp add: handleRedirectCallback_def handleRedirectCallback_catch_def Let_def
        record_event_def do_dispatch_def dispatched_types_def split: sum.splits)

lemma handleRedirectCallback_no_LOGOUT_COMPLETED:
  "''LOGOUT_COMPLETED'' \<notin>
     set (dispatched_types (new_events c (snd (handleRedirectCallback env c))))"
  using handleRedirectCallback_trace [of env c] by (auto simp: new_events_def)

lemma initialize_catch_trace:
  "\<exists>evs. trace (initialize_catch options err c) = trace c @ evs \<and>
         ''LOGOUT_COMPLETED'' \<notin> set (dispatched_types evs)"
  by (simp add: initialize_catch_def Let_def record_event_def do_dispatch_def
        dispatched_types_def)

lemma initialize_session_trace:
  "\<exists>evs. trace (initialize_session options env c) = trace c @ evs \<and>
         ''LOGOUT_COMPLETED'' \<notin> set (dispatched_types evs)"
proof (cases "getUser_outcome env")
  case (Inl err)
  obtain evs where
    "trace (initialize_catch options err (record_event (EngineCalled Call_getUser) c))
       = trace (record_event (EngineCalled Call_getUser) c) @ evs"
    "''LOGOUT_COMPLETED'' \<notin> set (dispatched_types evs)"
    using initialize_catch_trace by blast
  then show ?thesis
    using Inl by (simp add: initialize_session_def Let_def record_event_def dispatched_types_def)
next
  case (Inr ou)
  then show ?thesis
    by (simp add: initialize_session_def Let_def record_event_def do_dispatch_def
          dispatched_types_def split: option.splits)
qed

lemma dispatched_types_append:
  "dispatched_types (xs @ ys) = dispatched_types xs @ dispatched_types ys"
  by (simp add: dispatched_types_def)

lemma initialize_try_trace:
  "\<exists>evs. trace (initialize_try options env c) = trace c @ evs \<and>
         ''LOGOUT_COMPLETED'' \<notin> set (dispatched_types evs)"
proof -
  obtain evs1 where h: "trace (snd (handleRedirectCallback env c)) = trace c @ evs1"
      "''LOGOUT_COMPLETED'' \<notin> set (dispatched_types evs1)"
    using handleRedirectCallback_trace by blast
  have via_callback:
    "\<exists>evs. trace (case handleRedirectCallback env c of
                    (Inl e, c1) \<Rightarrow> initialize_catch options (ThrownError e) c1
                  | (Inr u, c1) \<Rightarrow>
                      (if onRedirectCallback options
                       then record_event (OnRedirectCallbackCalled u) c1 else c1))
              = trace c @ evs \<and> ''LOGOUT_COMPLETED'' \<notin> set (dispatched_types evs)"
  proof (cases "handleRedirectCallback env c")
    case (Pair r c1)
    then have c1: "trace c1 = trace c @ evs1" using h by simp
    show ?thesis
    proof (cases r)
      case (Inl e)
      obtain evs2 where "trace (initialize_catch options (ThrownError e) c1) = trace c1 @ evs2"
        "''LOGOUT_COMPLETED'' \<notin> set (dispatched_types evs2)"
        using initialize_catch_trace by blast
      then show ?thesis
        using Pair Inl c1 h(2) by (simp add: dispatched_types_append)
    next
      case (Inr u)
      then show ?thesis
        using Pair c1 h(2)
        by (simp add: record_event_def dispatched_types_append) (simp add: dispatched_types_def)
    qed
  qed
  show ?thesis
    unfolding initialize_try_def
    using via_callback initialize_session_trace [of options env c]
      initialize_catch_trace [of options _ c]
    by (simp split: option.splits sum.splits bool.splits)
qed

lemma initialize_no_LOGOUT_COMPLETED:
  "''LOGOUT_COMPLETED'' \<notin>
     set (dispatched_types (new_events c (snd (initialize options env c))))"
proof (cases "createUserManager (url_parses env) options")
  case (Inl e)
  then show ?thesis by (simp add: initialize_def new_events_def dispatched_types_def)
next
  case (Inr um)
  obtain evs where
    "trace (initialize_try options env (record_event (EngineCreated um) (c\<lparr>userManager := Some um\<rparr>)))
       = trace (record_event (EngineCreated um) (c\<lparr>userManager := Some um\<rparr>)) @ evs"
    "''LOGOUT_COMPLETED'' \<notin> set (dispatched_types evs)"
    using initialize_try_trace by blast
  then show ?thesis
    using Inr
    by (simp add: initialize_def Let_def new_events_def record_event_def dispatched_types_def)
qed

text \<open>
  C9, as the code has it: a logout that succeeds leaves the state as it was and
  dispatches nothing; among the methods of the instance and the listeners, only the
  listeners for the user-unloaded and the access-token-expired notifications dispatch
  LOGOUT_COMPLETED, so logout never does; and initialize does not either.
\<close>

theorem logout_dispatches_nothing:
  "(fst (logout env lo c) = Inr () \<longrightarrow>
      state (snd (logout env lo c)) = state c \<and>
      dispatched_types (new_events c (snd (logout env lo c))) = []) \<and>
   (''LOGOUT_COMPLETED'' \<in> set (dispatched_types (new_events c (perform options env op c))) \<longrightarrow>
      op = Op_notification UserUnloaded \<or> op = Op_notification AccessTokenExpired) \<and>
   ''LOGOUT_COMPLETED'' \<notin>
      set (dispatched_types (new_events c (snd (initialize options env c))))"
proof -
  have a: "fst (logout env lo c) = Inr () \<longrightarrow>
             state (snd (logout env lo c)) = state c \<and>
             dispatched_types (new_events c (snd (logout env lo c))) = []"
    by (auto simp: logout_def Let_def record_event_def new_events_def dispatched_types_def
          split: if_splits option.splits)
  have b: "op = Op_notification UserUnloaded \<or> op = Op_notification AccessTokenExpired"
    if d: "''LOGOUT_COMPLETED'' \<in>
             set (dispatched_types (new_events c (perform options env op c)))"
  proof (cases op)
    case (Op_notification n)
    then show ?thesis
      using d
      by (cases n)
         (auto simp: new_events_def dispatched_types_def do_dispatch_def record_event_def
            Let_def split: if_splits)
  next
    case (Op_loginWithRedirect x)
    then show ?thesis using d loginWithRedirect_no_LOGOUT_COMPLETED [of c env x] by simp
  next
    case (Op_loginWithPopup x)
    then show ?thesis using d loginWithPopup_no_LOGOUT_COMPLETED [of c env x] by simp
  next
    case (Op_logout x)
    then show ?thesis using d logout_no_LOGOUT_COMPLETED [of c env x] by simp
  next
    case (Op_getAccessToken x)
    then show ?thesis using d getAccessToken_no_dispatch [of c env x] by simp
  next
    case Op_refreshToken
    then show ?thesis using d refreshToken_no_LOGOUT_COMPLETED [of c env] by simp
  next
    case Op_handleRedirectCallback
    then show ?thesis using d handleRedirectCallback_no_LOGOUT_COMPLETED [of c env] by simp
  qed
  show ?thesis
    using a b initialize_no_LOGOUT_COMPLETED [of c options env] by blast
qed

text \<open>
  C9, as it is stated, fails on "only the user-unloaded listener": the listener for the
  access-token-expired notification dispatches LOGOUT_COMPLETED as well.
\<close>

theorem logout_completed_only_user_unloaded_counterexample:
  "dispatched_types
     (new_events controller_signed_in
        (perform example_options example_engine (Op_notification AccessTokenExpired)
           controller_signed_in)) = [''LOGOUT_COMPLETED''] \<and>
   Op_notification AccessTokenExpired \<noteq> Op_notification UserUnloaded"
  by (simp add: controller_signed_in_def new_events_def dispatched_types_def do_dispatch_def)

section \<open>The properties at concrete inputs\<close>

text \<open>
  C1 at a concrete state: the state after an ERROR action is reachable, carries an error, and is the Errored variant.
\<close>

theorem reachable_invariant_witness:
  "reachable (authReducer initialAuthState (ERROR (Error ''boom''))) \<and>
   error (authReducer initialAuthState (ERROR (Error ''boom''))) \<noteq> None \<and>
   is_ErrorState (authReducer initialAuthState (ERROR (Error ''boom''))) \<and>
   \<not> isAuthenticated (authReducer initialAuthState (ERROR (Error ''boom''))) \<and>
   user (authReducer initialAuthState (ERROR (Error ''boom''))) = None"
proof -
  have r: "reachable (authReducer initialAuthState (ERROR (Error ''boom'')))"
    by (rule reachable_authReducer [OF reachable_initial])
  have e: "error (authReducer initialAuthState (ERROR (Error ''boom''))) \<noteq> None"
    by simp
  show ?thesis using r e reachable_invariant [OF r] by blast
qed

text \<open>
  C10 at concrete sessions: one without id_token, one whose id_token is the empty string.
\<close>

theorem mapOidcUserToScalekitUser_idToken_witness:
  "id_token example_user = None \<and>
   idToken (mapOidcUserToScalekitUser example_user) = [] \<and>
   id_token (example_user\<lparr>id_token := Some []\<rparr>) = Some [] \<and>
   idToken (mapOidcUserToScalekitUser (example_user\<lparr>id_token := Some []\<rparr>)) = []"
proof -
  have a: "id_token example_user = None \<or> id_token example_user = Some []"
    by (simp add: example_user_def)
  have b: "id_token (example_user\<lparr>id_token := Some []\<rparr>) = None \<or>
           id_token (example_user\<lparr>id_token := Some []\<rparr>) = Some []"
    by simp
  show ?thesis
    using mapOidcUserToScalekitUser_idToken [OF a] mapOidcUserToScalekitUser_idToken [OF b]
    by (simp add: example_user_def)
qed

text \<open>
  C6 at concrete addresses: the callback address with code and state is cleaned by one history replacement and a second run changes nothing; an address with none of the five parameters is left alone.
\<close>

theorem cleanupAuthParams_idempotent_witness:
  "cleanupAuthParams (Some window_callback) =
     Some \<lparr> location = location window_clean,
            replaceState_calls = [location window_clean] \<rparr> \<and>
   cleanupAuthParams (cleanupAuthParams (Some window_callback)) =
     cleanupAuthParams (Some window_callback) \<and>
   \<not> params_has (searchParams (location window_clean)) ''code'' \<and>
   \<not> params_has (searchParams (location window_clean)) ''state'' \<and>
   \<not> params_has (searchParams (location window_clean)) ''error'' \<and>
   \<not> params_has (searchParams (location window_clean)) ''error_description'' \<and>
   \<not> params_has (searchParams (location window_clean)) ''session_state'' \<and>
   cleanupAuthParams (Some window_clean) = Some window_clean"
proof -
  have none: "\<forall>k \<in> set paramsToRemove. \<not> params_has (searchParams (location window_clean)) k"
    by (simp add: paramsToRemove_def window_clean_def params_has_def OIDC_PARAMS_CODE_def
          OIDC_PARAMS_STATE_def OIDC_PARAMS_ERROR_def OIDC_PARAMS_ERROR_DESCRIPTION_def
          OIDC_PARAMS_SESSION_STATE_def)
  have first: "cleanupAuthParams (Some window_callback) =
     Some \<lparr> location = location window_clean,
            replaceState_calls = [location window_clean] \<rparr>"
    by (simp add: cleanupAuthParams_def cleanup_param_def paramsToRemove_def
          window_callback_def window_clean_def params_has_def params_delete_def
          OIDC_PARAMS_CODE_def OIDC_PARAMS_STATE_def OIDC_PARAMS_ERROR_def
          OIDC_PARAMS_ERROR_DESCRIPTION_def OIDC_PARAMS_SESSION_STATE_def)
  show ?thesis
    using cleanupAuthParams_idempotent [of "Some window_callback" window_clean] none first
    by (simp add: paramsToRemove_def OIDC_PARAMS_CODE_def
          OIDC_PARAMS_STATE_def OIDC_PARAMS_ERROR_def OIDC_PARAMS_ERROR_DESCRIPTION_def
          OIDC_PARAMS_SESSION_STATE_def)
qed


text \<open>
  C4 at a concrete session: signed in, not expired, no forceRefresh.
\<close>

theorem getAccessToken_no_renewal_witness:
  "userManager controller_signed_in \<noteq> None \<and>
   getUser_outcome example_engine = Inr (Some example_user) \<and>
   \<not> expired example_user \<and>
   forceRefresh default_token_options \<noteq> Some True \<and>
   getAccessToken example_engine default_token_options controller_signed_in =
     (Inr ''at_1'', record_event (EngineCalled Call_getUser) controller_signed_in) \<and>
   new_events controller_signed_in
     (snd (getAccessToken example_engine default_token_options controller_signed_in)) =
     [EngineCalled Call_getUser]"
proof -
  have a: "userManager controller_signed_in \<noteq> None"
    by (simp add: controller_signed_in_def)
  have b: "getUser_outcome example_engine = Inr (Some example_user)"
    by (simp add: example_engine_def)
  have c: "\<not> expired example_user"
    by (simp add: example_user_def)
  have d: "forceRefresh default_token_options \<noteq> Some True"
    by (simp add: default_token_options_def)
  have t: "access_token example_user = ''at_1''"
    by (simp add: example_user_def)
  note r = getAccessToken_no_renewal [OF a b c d, unfolded t]
  show ?thesis
    using a b c d r by blast
qed

text \<open>
  C3 at concrete outcomes of the engine: no persisted session; an expired session whose silent renewal gives no session; a read of the session that is rejected.
\<close>

theorem getAccessToken_failures_witness:
  "userManager controller_signed_in \<noteq> None \<and>
   fst (getAccessToken (example_engine\<lparr>getUser_outcome := Inr None\<rparr>)
          default_token_options controller_signed_in) = Inl (NotAuthenticatedError None) \<and>
   fst (getAccessToken
          (example_engine\<lparr>getUser_outcome := Inr (Some (example_user\<lparr>expired := True\<rparr>))\<rparr>)
          default_token_options controller_signed_in) =
     Inl (TokenRefreshError ''Failed to get access token''
            (Some (TokenRefreshError ''Silent refresh returned no user'' None))) \<and>
   fst (getAccessToken
          (example_engine\<lparr>getUser_outcome := Inl (ThrownError (Error ''storage failed''))\<rparr>)
          default_token_options controller_signed_in) =
     Inl (TokenRefreshError ''Failed to get access token'' (Some (Error ''storage failed''))) \<and>
   cls (TokenRefreshError ''Failed to get access token'' (Some (Error ''storage failed'')))
     \<noteq> C_NotAuthenticatedError"
proof -
  have a: "userManager controller_signed_in \<noteq> None"
    by (simp add: controller_signed_in_def)
  have n: "\<not> instanceof_NotAuthenticatedError (ThrownError (Error ''storage failed''))"
    by (simp add: instanceof_NotAuthenticatedError_def Error_def)
  show ?thesis
    using a n
      getAccessToken_failures
        [where c = controller_signed_in and options = default_token_options
           and env = "example_engine\<lparr>getUser_outcome := Inr None\<rparr>"]
      getAccessToken_failures
        [where c = controller_signed_in and options = default_token_options
           and u = "example_user\<lparr>expired := True\<rparr>"
           and env = "example_engine\<lparr>getUser_outcome :=
                        Inr (Some (example_user\<lparr>expired := True\<rparr>))\<rparr>"]
      getAccessToken_failures
        [where c = controller_signed_in and options = default_token_options
           and t = "ThrownError (Error ''storage failed'')"
           and env = "example_engine\<lparr>getUser_outcome :=
                        Inl (ThrownError (Error ''storage failed''))\<rparr>"]
    by (simp add: example_engine_def error_or_undefined_def TokenRefreshError_def)
qed


text \<open>
  C9 at a concrete controller: a logout that succeeds, and the user-unloaded notification.
\<close>

theorem logout_dispatches_nothing_witness:
  "fst (logout example_engine default_logout_options controller_signed_in) = Inr () \<and>
   state (snd (logout example_engine default_logout_options controller_signed_in)) =
     state controller_signed_in \<and>
   dispatched_types
     (new_events controller_signed_in
        (snd (logout example_engine default_logout_options controller_signed_in))) = [] \<and>
   ''LOGOUT_COMPLETED'' \<in> set (dispatched_types
     (new_events controller_signed_in
        (perform example_options example_engine (Op_notification UserUnloaded)
           controller_signed_in)))"
proof -
  have r: "fst (logout example_engine default_logout_options controller_signed_in) = Inr ()"
    by (simp add: logout_def Let_def controller_signed_in_def example_engine_def)
  have d: "''LOGOUT_COMPLETED'' \<in> set (dispatched_types
     (new_events controller_signed_in
        (perform example_options example_engine (Op_notification UserUnloaded)
           controller_signed_in)))"
    by (simp add: controller_signed_in_def new_events_def dispatched_types_def do_dispatch_def)
  show ?thesis
    using r d
      logout_dispatches_nothing
        [where env = example_engine and lo = default_logout_options
           and c = controller_signed_in and options = example_options
           and op = "Op_notification UserUnloaded"]
    by simp
qed

end
